theory Spec2Isabelle
  imports Main "HOL-Library.Word" "HOL-Library.AList"
begin

section \<open>JavaScript values, strings and objects\<close>

text \<open>
  A JavaScript string is a sequence of UTF-16 code units; \<open>.length\<close> counts them.
  \<open>lit\<close> embeds an ASCII literal of the source.
\<close>

type_synonym code_unit = "16 word"
type_synonym jsstring = "code_unit list"

definition lit :: "string \<Rightarrow> jsstring" where
  "lit s = map (\<lambda>c. of_nat (of_char c)) s"

datatype jsval = JUndefined | JNull | JBool bool | JNum int | JStr jsstring

text \<open>ToBoolean on primitives; every object, a function included, is truthy.\<close>

fun ToBoolean :: "jsval \<Rightarrow> bool" where
  "ToBoolean JUndefined = False"
| "ToBoolean JNull = False"
| "ToBoolean (JBool b) = b"
| "ToBoolean (JNum n) = (n \<noteq> 0)"
| "ToBoolean (JStr s) = (s \<noteq> [])"

definition ToBoolean_object :: "'a \<Rightarrow> bool" where
  "ToBoolean_object f = True"

text \<open>The operator \<open>a || b\<close>.\<close>

definition js_or :: "jsval \<Rightarrow> jsval \<Rightarrow> jsval" where
  "js_or a b = (if ToBoolean a then a else b)"

text \<open>
  A plain object is the list of its own properties in insertion order; its keys are
  distinct and are names, not array indices (JavaScript lists index-like keys first,
  which the list order here does not follow). Reading a missing property gives
  \<open>undefined\<close>. \<open>spread target source\<close> is \<open>{...target, ...source}\<close>: a key of the
  source overrides in place or is appended.
\<close>

type_synonym obj = "(string \<times> jsval) list"

definition get_prop :: "obj \<Rightarrow> string \<Rightarrow> jsval" where
  "get_prop ob k = (case map_of ob k of None \<Rightarrow> JUndefined | Some v \<Rightarrow> v)"

definition set_prop :: "string \<Rightarrow> jsval \<Rightarrow> obj \<Rightarrow> obj" where
  "set_prop k v ob = AList.update k v ob"

definition spread :: "obj \<Rightarrow> obj \<Rightarrow> obj" where
  "spread target source = fold (\<lambda>(k, v). AList.update k v) source target"

definition Object_entries :: "obj \<Rightarrow> (string \<times> jsval) list" where
  "Object_entries ob = ob"

definition Object_fromEntries :: "(string \<times> jsval) list \<Rightarrow> obj" where
  "Object_fromEntries es = spread [] es"

definition Object_keys :: "obj \<Rightarrow> string list" where
  "Object_keys ob = map fst ob"


section \<open>The score-query store (scoresStore)\<close>

record pagination =
  page :: int
  size_p :: int

record scores_store =
  filters :: obj
  pagination :: pagination

definition scoresStore_init :: scores_store where
  "scoresStore_init =
     \<lparr>filters = [(''playStyle'', JStr []), (''level'', JStr []),
                (''chartType'', JStr []), (''clearType'', JStr [])],
      pagination = \<lparr>page = 0, size_p = 20\<rparr>\<rparr>"

text \<open>
  \<open>set((state) => ({filters: {...state.filters, ...newFilters},
  pagination: {...state.pagination, page: 0}}))\<close>
\<close>

definition setFilters :: "obj \<Rightarrow> scores_store \<Rightarrow> scores_store" where
  "setFilters newFilters state =
     state\<lparr>filters := spread (filters state) newFilters,
           pagination := (pagination state)\<lparr>page := 0\<rparr>\<rparr>"

text \<open>\<open>set((state) => ({pagination: {...state.pagination, page}}))\<close>\<close>

definition setPage :: "int \<Rightarrow> scores_store \<Rightarrow> scores_store" where
  "setPage p state = state\<lparr>pagination := (pagination state)\<lparr>page := p\<rparr>\<rparr>"

definition resetFilters :: "scores_store \<Rightarrow> scores_store" where
  "resetFilters state =
     state\<lparr>filters := [(''playStyle'', JStr []), (''level'', JStr []),
                       (''chartType'', JStr []), (''clearType'', JStr [])],
           pagination := \<lparr>page = 0, size_p = 20\<rparr>\<rparr>"


section \<open>Requests and the REST modules\<close>

text \<open>
  A thrown value as the \<open>catch\<close> blocks read it: \<open>err.response?.data?.message\<close>.
  \<open>HttpError status (Some d)\<close> is a failed request whose response body is the JSON
  object \<open>d\<close>; \<open>HttpError status None\<close> one whose body is not an object;
  \<open>NetworkError\<close> a rejection with no response; \<open>TypeError\<close> a runtime error that is
  not a request rejection at all.
\<close>

datatype js_error = TypeError | NetworkError | HttpError nat "obj option"

fun response_data_message :: "js_error \<Rightarrow> jsval" where
  "response_data_message TypeError = JUndefined"
| "response_data_message NetworkError = JUndefined"
| "response_data_message (HttpError status None) = JUndefined"
| "response_data_message (HttpError status (Some d)) = get_prop d ''message''"

record js_file =
  name :: jsstring
  size_f :: nat

datatype form_part = FilePart js_file | TextPart jsstring

datatype request =
    Get string obj
  | PostForm string "(string \<times> form_part) list"
  | PostJson string obj

text \<open>
  The backend as the client sees it: each request settles with the response body or
  with a rejection. An asynchronous call of the model returns the requests it issued,
  in order, together with its outcome. The interceptors of \<open>apiClient\<close> add a header
  to the request and pass a rejection on as it is; they change neither the params, the
  body nor the outcome, and are left out.
\<close>

type_synonym 'r backend = "request \<Rightarrow> js_error + 'r"

definition cleanParams :: "obj \<Rightarrow> obj" where
  "cleanParams params =
     Object_fromEntries
       (filter (\<lambda>(k, v). v \<noteq> JStr [] \<and> v \<noteq> JNull \<and> v \<noteq> JUndefined)
          (Object_entries params))"

definition getScores :: "'r backend \<Rightarrow> obj \<Rightarrow> request list \<times> (js_error + 'r)" where
  "getScores net params =
     (let req = Get ''/scores'' (cleanParams params) in ([req], net req))"


text \<open>
  The sources hold a second revision of \<open>scoresApi.getScores\<close>, which hands the
  params object to the HTTP client as it is.
\<close>

definition getScores_passthrough ::
    "'r backend \<Rightarrow> obj \<Rightarrow> request list \<times> (js_error + 'r)" where
  "getScores_passthrough net params =
     (let req = Get ''/scores'' params in ([req], net req))"

text \<open>
  \<open>authApi\<close> has the properties \<open>login\<close>, \<open>logout\<close> and \<open>getCurrentUser\<close>. It has
  no property \<open>signup\<close>: reading \<open>authApi.signup\<close> gives \<open>undefined\<close>.
\<close>

definition authApi_signup ::
    "('r backend \<Rightarrow> obj \<Rightarrow> request list \<times> (js_error + 'r)) option" where
  "authApi_signup = None"


section \<open>The auth store and the route guard\<close>

record loadable =
  isLoading :: bool
  error :: jsval

record auth_store = loadable +
  user :: "obj option"

definition authStore_init :: auth_store where
  "authStore_init = \<lparr>isLoading = True, error = JNull, user = None\<rparr>"

definition setUser :: "obj option \<Rightarrow> auth_store \<Rightarrow> auth_store" where
  "setUser u store = store\<lparr>user := u, error := JNull\<rparr>"

definition setLoading :: "bool \<Rightarrow> auth_store \<Rightarrow> auth_store" where
  "setLoading b store = store\<lparr>isLoading := b\<rparr>"

definition logout :: "auth_store \<Rightarrow> auth_store" where
  "logout store = store\<lparr>user := None, error := JNull\<rparr>"

text \<open>
  The property \<open>isAuthenticated\<close> of the store is a function,
  \<open>() => { const { user } = get(); return user !== null; }\<close>: its value at a store is
  the closure, and calling the closure gives the boolean.
\<close>

definition isAuthenticated :: "auth_store \<Rightarrow> unit \<Rightarrow> bool" where
  "isAuthenticated store = (\<lambda>u. user store \<noteq> None)"

datatype 'c element = LoadingScreen | Navigate string bool | Children 'c

text \<open>\<open>Navigate to replace\<close>: the target and the \<open>replace\<close> flag.\<close>

definition ProtectedRoute :: "auth_store \<Rightarrow> 'c \<Rightarrow> 'c element" where
  "ProtectedRoute store children =
     (if isLoading store then LoadingScreen
      else if user store = None then Navigate ''/login'' True
      else Children children)"


section \<open>The score-query hook (useScores)\<close>

record 's score_page =
  content :: "'s list"
  totalElements :: nat
  totalPages :: nat
  number :: nat

record 's useScores_state = loadable +
  data :: "'s score_page option"

definition useScores_init :: "'s useScores_state" where
  "useScores_init = \<lparr>isLoading = True, error = JNull, data = None\<rparr>"

definition scores_fallback :: jsstring where
  "scores_fallback =
     [49828, 53076, 50612, 47484, 32, 48520, 47084, 50724, 45716, 32, 45936, 32, 49892,
      54056, 54664, 49845, 45768, 45796, 46]"

definition fetchScores ::
    "scores_store \<Rightarrow> 's score_page backend \<Rightarrow> 's useScores_state
       \<Rightarrow> request list \<times> 's useScores_state" where
  "fetchScores store net st =
     (let st1 = st\<lparr>isLoading := True, error := JNull\<rparr>;
          (reqs, outcome) =
            getScores net
              (set_prop ''size'' (JNum (size_p (pagination store)))
                (set_prop ''page'' (JNum (page (pagination store)))
                  (spread [] (filters store))))
      in case outcome of
           Inr result \<Rightarrow> (reqs, st1\<lparr>data := Some result, isLoading := False\<rparr>)
         | Inl err \<Rightarrow>
             (reqs, st1\<lparr>error := js_or (response_data_message err) (JStr scores_fallback),
                         isLoading := False\<rparr>))"


section \<open>The dashboard hook (useDashboard)\<close>

record stats =
  total_s :: nat
  fullCombo :: nat
  exHard :: nat
  hard :: nat
  clear :: nat

record 's useDashboard_state = loadable +
  stats :: stats
  recentScores :: "'s list"

definition useDashboard_init :: "'s useDashboard_state" where
  "useDashboard_init =
     \<lparr>isLoading = True, error = JNull,
      stats = \<lparr>total_s = 0, fullCombo = 0, exHard = 0, hard = 0, clear = 0\<rparr>,
      recentScores = []\<rparr>"

definition dashboard_fallback :: jsstring where
  "dashboard_fallback =
     [45824, 49884, 48372, 46300, 32, 45936, 51060, 53552, 47484, 32, 48520, 47084, 50724,
      45716, 45936, 32, 49892, 54056, 54664, 49845, 45768, 45796, 46]"

text \<open>
  \<open>Promise.all\<close> over promises that all settle: \<open>order\<close> lists the indices in the order
  in which the promises settle. The first rejection to happen rejects the whole;
  with no rejection the values come back in index order.
\<close>

definition Promise_all :: "nat list \<Rightarrow> ('e + 'a) list \<Rightarrow> 'e + 'a list" where
  "Promise_all order ps =
     (case filter (\<lambda>i. i < length ps \<and> isl (ps ! i)) order of
        i # rest \<Rightarrow> Inl (projl (ps ! i))
      | [] \<Rightarrow> Inr (map projr ps))"

definition dashboard_params :: "obj list" where
  "dashboard_params =
     [[(''size'', JNum 1)],
      [(''clearType'', JStr (lit ''FULL_COMBO'')), (''size'', JNum 1)],
      [(''clearType'', JStr (lit ''EX_HARD_CLEAR'')), (''size'', JNum 1)],
      [(''clearType'', JStr (lit ''HARD_CLEAR'')), (''size'', JNum 1)],
      [(''clearType'', JStr (lit ''CLEAR'')), (''size'', JNum 1)],
      [(''page'', JNum 0), (''size'', JNum 5)]]"

text \<open>
  \<open>const { isAuthenticated } = useAuthStore()\<close> binds the store's property, the
  function itself; the gate \<open>if (!isAuthenticated)\<close> tests that binding.
\<close>

definition fetchDashboardData ::
    "auth_store \<Rightarrow> 's score_page backend \<Rightarrow> nat list \<Rightarrow> 's useDashboard_state
       \<Rightarrow> request list \<times> 's useDashboard_state" where
  "fetchDashboardData store net order st =
     (let isAuth = isAuthenticated store in
      if \<not> ToBoolean_object isAuth then ([], st\<lparr>isLoading := False\<rparr>)
      else
        let st1 = st\<lparr>isLoading := True, error := JNull\<rparr>;
            calls = map (getScores net) dashboard_params;
            reqs = concat (map fst calls)
        in case Promise_all order (map snd calls) of
             Inr rs \<Rightarrow>
               (reqs,
                st1\<lparr>stats := \<lparr>total_s = totalElements (rs ! 0),
                                fullCombo = totalElements (rs ! 1),
                                exHard = totalElements (rs ! 2),
                                hard = totalElements (rs ! 3),
                                clear = totalElements (rs ! 4)\<rparr>,
                     recentScores := content (rs ! 5),
                     isLoading := False\<rparr>)
           | Inl err \<Rightarrow>
               (reqs,
                st1\<lparr>error := js_or (response_data_message err) (JStr dashboard_fallback),
                     isLoading := False\<rparr>))"


section \<open>The CSV upload page (CsvUpload, importApi)\<close>

definition endsWith :: "jsstring \<Rightarrow> jsstring \<Rightarrow> bool" where
  "endsWith s suffix =
     (length suffix \<le> length s \<and> drop (length s - length suffix) s = suffix)"

text \<open>
  \<open>String(n)\<close> for a count below \<open>2^53\<close>, where numbers are exact integers and
  print as their decimal digits.
\<close>

fun String_nat :: "nat \<Rightarrow> jsstring" where
  "String_nat n =
     (if n < 10 then [of_nat (48 + n)]
      else String_nat (n div 10) @ [of_nat (48 + n mod 10)])"

declare String_nat.simps [simp del]

record progress_event =
  loaded :: nat
  total_e :: "nat option"

record import_result =
  songsImported :: nat
  chartsImported :: nat
  scoresImported :: nat
  scoresUpdated :: nat

text \<open>
  \<open>importApi.uploadCsv\<close> of \<open>api/import.js\<close>, the module \<open>CsvUpload\<close> imports:
  \<open>async (file, playStyle) => ...\<close>. It posts the form and returns the response body.
  It declares two parameters and installs no progress handler, so a third argument of
  a call is dropped and the progress events \<open>evs\<close> that the transport raises while the
  body is sent reach no code of the client.
\<close>

definition uploadCsv ::
    "import_result backend \<Rightarrow> progress_event list \<Rightarrow> js_file \<Rightarrow> jsstring
       \<Rightarrow> (int \<Rightarrow> 'st \<Rightarrow> 'st) option \<Rightarrow> 'st
       \<Rightarrow> request list \<times> 'st \<times> (js_error + import_result)" where
  "uploadCsv net evs f ps dropped st =
     (let req = PostForm ''/import/iidx/score''
                  [(''file'', FilePart f), (''playStyle'', TextPart ps)]
      in ([req], st, net req))"

text \<open>
  The sources hold a second revision of \<open>importApi.uploadCsv\<close>, with a third parameter
  \<open>onProgress\<close> and an \<open>onUploadProgress\<close> handler: the handler calls \<open>onProgress\<close> when
  a callback was passed and \<open>progressEvent.total\<close> is truthy (neither missing nor 0).
  \<open>round_percent loaded total\<close> stands for the value of
  \<open>Math.round((loaded * 100) / total)\<close> as the engine computes it, in double precision.
\<close>

definition onUploadProgress ::
    "(nat \<Rightarrow> nat \<Rightarrow> int) \<Rightarrow> (int \<Rightarrow> 'st \<Rightarrow> 'st) option \<Rightarrow> progress_event
       \<Rightarrow> 'st \<Rightarrow> 'st" where
  "onUploadProgress round_percent onProgress progressEvent st =
     (case onProgress of
        None \<Rightarrow> st
      | Some callback \<Rightarrow>
          (case total_e progressEvent of
             None \<Rightarrow> st
           | Some t \<Rightarrow>
               if t = 0 then st else callback (round_percent (loaded progressEvent) t) st))"

definition uploadCsv_onProgress ::
    "(nat \<Rightarrow> nat \<Rightarrow> int) \<Rightarrow> import_result backend \<Rightarrow> progress_event list
       \<Rightarrow> js_file \<Rightarrow> jsstring \<Rightarrow> (int \<Rightarrow> 'st \<Rightarrow> 'st) option \<Rightarrow> 'st
       \<Rightarrow> request list \<times> 'st \<times> (js_error + import_result)" where
  "uploadCsv_onProgress round_percent net evs f ps onProgress st =
     (let req = PostForm ''/import/iidx/score''
                  [(''file'', FilePart f), (''playStyle'', TextPart ps)]
      in ([req], fold (onUploadProgress round_percent onProgress) evs st, net req))"

datatype upload_state = Idle | Uploading | Success | Error

datatype toast = Toast_error jsval | Toast_success jsstring

record csv_upload =
  file_st :: "js_file option"
  playStyle :: jsstring
  isDragging :: bool
  uploadState :: upload_state
  progress :: int
  result :: "import_result option"

definition CsvUpload_init :: csv_upload where
  "CsvUpload_init =
     \<lparr>file_st = None, playStyle = lit ''SP'', isDragging = False, uploadState = Idle,
      progress = 0, result = None\<rparr>"

definition msg_csv_only :: jsstring where
  "msg_csv_only =
     [67, 83, 86, 32, 54028, 51068, 47564, 32, 50629, 47196, 46300, 32, 44032, 45733,
      54633, 45768, 45796, 46]"

definition msg_too_large :: jsstring where
  "msg_too_large =
     [54028, 51068, 32, 53356, 44592, 45716, 32, 49, 48, 77, 66, 32, 51060, 54616, 47564,
      32, 44032, 45733, 54633, 45768, 45796, 46]"

definition msg_processed_suffix :: jsstring where
  "msg_processed_suffix =
     [44060, 32, 49828, 53076, 50612, 32, 52376, 47532, 32, 50756, 47308, 33]"

definition upload_fallback :: jsstring where
  "upload_fallback =
     [50629, 47196, 46300, 32, 51473, 32, 50724, 47448, 44032, 32, 48156, 49373, 54664,
      49845, 45768, 45796, 46]"

text \<open>\<open>validateFile\<close>: the toasts it shows and its verdict.\<close>

definition validateFile :: "js_file option \<Rightarrow> toast list \<times> bool" where
  "validateFile selectedFile =
     (case selectedFile of
        None \<Rightarrow> ([], False)
      | Some f \<Rightarrow>
          if \<not> endsWith (name f) (lit ''.csv'')
          then ([Toast_error (JStr msg_csv_only)], False)
          else if size_f f > 10 * 1024 * 1024
          then ([Toast_error (JStr msg_too_large)], False)
          else ([], True))"

definition handleFileSelect ::
    "js_file option \<Rightarrow> csv_upload \<Rightarrow> request list \<times> toast list \<times> csv_upload" where
  "handleFileSelect selectedFile st =
     (let (ts, ok) = validateFile selectedFile
      in if ok then ([], ts, st\<lparr>file_st := selectedFile, uploadState := Idle, result := None\<rparr>)
         else ([], ts, st))"

definition setPlayStyle :: "jsstring \<Rightarrow> csv_upload \<Rightarrow> csv_upload" where
  "setPlayStyle style st = st\<lparr>playStyle := style\<rparr>"

definition setProgress :: "int \<Rightarrow> csv_upload \<Rightarrow> csv_upload" where
  "setProgress p st = st\<lparr>progress := p\<rparr>"

text \<open>
  \<open>handleUpload\<close> calls \<open>importApi.uploadCsv(file, playStyle, setProgress)\<close>.
\<close>

definition handleUpload ::
    "import_result backend \<Rightarrow> progress_event list \<Rightarrow> csv_upload
       \<Rightarrow> request list \<times> toast list \<times> csv_upload" where
  "handleUpload net evs st =
     (case file_st st of
        None \<Rightarrow> ([], [], st)
      | Some f \<Rightarrow>
          let st1 = setProgress 0 (st\<lparr>uploadState := Uploading\<rparr>);
              (reqs, st2, outcome) = uploadCsv net evs f (playStyle st) (Some setProgress) st1
          in case outcome of
               Inr d \<Rightarrow>
                 (reqs,
                  [Toast_success
                     (String_nat (scoresImported d + scoresUpdated d) @ msg_processed_suffix)],
                  st2\<lparr>result := Some d, uploadState := Success\<rparr>)
             | Inl err \<Rightarrow>
                 (reqs,
                  [Toast_error (js_or (response_data_message err) (JStr upload_fallback))],
                  st2\<lparr>uploadState := Error\<rparr>))"


section \<open>The signup page (Signup)\<close>

record signup_form =
  username :: jsstring
  email :: jsstring
  password :: jsstring
  passwordConfirm :: jsstring

record signup_state =
  form :: signup_form
  errors :: obj
  isSubmitting :: bool

definition Signup_init :: signup_state where
  "Signup_init =
     \<lparr>form = \<lparr>username = [], email = [], password = [], passwordConfirm = []\<rparr>,
      errors = [], isSubmitting = False\<rparr>"

text \<open>White space and line terminators, as \<open>String.prototype.trim\<close> strips them.\<close>

definition is_space :: "code_unit \<Rightarrow> bool" where
  "is_space c =
     (c \<in> {0x9, 0xA, 0xB, 0xC, 0xD, 0x20, 0xA0, 0x1680, 0x2028, 0x2029, 0x202F, 0x205F,
            0x3000, 0xFEFF}
      \<or> (0x2000 \<le> c \<and> c \<le> 0x200A))"

definition trim :: "jsstring \<Rightarrow> jsstring" where
  "trim s = rev (dropWhile is_space (rev (dropWhile is_space s)))"

fun includes_js :: "jsstring \<Rightarrow> jsstring \<Rightarrow> bool" where
  "includes_js [] sub = (sub = [])"
| "includes_js (c # s) sub = (take (length sub) (c # s) = sub \<or> includes_js s sub)"

definition msg_username_required :: jsstring where
  "msg_username_required =
     [50500, 51060, 46356, 47484, 32, 51077, 47141, 54644, 51452, 49464, 50836, 46]"

definition msg_username_short :: jsstring where
  "msg_username_short =
     [50500, 51060, 46356, 45716, 32, 51, 51088, 32, 51060, 49345, 51060, 50612, 50556,
      32, 54633, 45768, 45796, 46]"

definition msg_email_invalid :: jsstring where
  "msg_email_invalid =
     [50732, 48148, 47480, 32, 51060, 47700, 51068, 32, 54805, 49885, 51060, 32, 50500,
      45785, 45768, 45796, 46]"

definition msg_password_short :: jsstring where
  "msg_password_short =
     [48708, 48128, 48264, 54840, 45716, 32, 56, 51088, 32, 51060, 49345, 51060, 50612,
      50556, 32, 54633, 45768, 45796, 46]"

definition msg_password_mismatch :: jsstring where
  "msg_password_mismatch =
     [48708, 48128, 48264, 54840, 44032, 32, 51068, 52824, 54616, 51648, 32, 50506, 49845,
      45768, 45796, 46]"

definition msg_signup_done :: jsstring where
  "msg_signup_done =
     [54924, 50896, 44032, 51077, 32, 50756, 47308, 33, 32, 47196, 44536, 51064, 32,
      54644, 51452, 49464, 50836, 46]"

definition signup_fallback :: jsstring where
  "signup_fallback =
     [54924, 50896, 44032, 51077, 32, 51473, 32, 50724, 47448, 44032, 32, 48156, 49373,
      54664, 49845, 45768, 45796, 46]"

definition validate :: "signup_form \<Rightarrow> obj" where
  "validate f =
     (let e0 = [];
          e1 = (if \<not> ToBoolean (JStr (trim (username f)))
                then set_prop ''username'' (JStr msg_username_required) e0
                else if length (username f) < 3
                then set_prop ''username'' (JStr msg_username_short) e0
                else e0);
          e2 = (if \<not> includes_js (email f) (lit ''@'')
                then set_prop ''email'' (JStr msg_email_invalid) e1 else e1);
          e3 = (if length (password f) < 8
                then set_prop ''password'' (JStr msg_password_short) e2 else e2);
          e4 = (if password f \<noteq> passwordConfirm f
                then set_prop ''passwordConfirm'' (JStr msg_password_mismatch) e3 else e3)
      in e4)"

datatype field = Username | Email | Password | PasswordConfirm

fun field_name :: "field \<Rightarrow> string" where
  "field_name Username = ''username''"
| "field_name Email = ''email''"
| "field_name Password = ''password''"
| "field_name PasswordConfirm = ''passwordConfirm''"

fun set_field :: "field \<Rightarrow> jsstring \<Rightarrow> signup_form \<Rightarrow> signup_form" where
  "set_field Username v f = f\<lparr>username := v\<rparr>"
| "set_field Email v f = f\<lparr>email := v\<rparr>"
| "set_field Password v f = f\<lparr>password := v\<rparr>"
| "set_field PasswordConfirm v f = f\<lparr>passwordConfirm := v\<rparr>"

text \<open>
  \<open>handleChange\<close> for the input named \<open>field_name fld\<close>: it stores the value and, when
  that field has a truthy error, replaces the error by the empty string.
\<close>

definition handleChange :: "field \<Rightarrow> jsstring \<Rightarrow> signup_state \<Rightarrow> signup_state" where
  "handleChange fld v st =
     (let st1 = st\<lparr>form := set_field fld v (form st)\<rparr>
      in if ToBoolean (get_prop (errors st) (field_name fld))
         then st1\<lparr>errors := spread (errors st1) [(field_name fld, JStr [])]\<rparr>
         else st1)"

text \<open>
  \<open>handleSubmit\<close>: the requests sent, the toasts shown, the route navigated to (if any)
  and the new state. Calling \<open>authApi.signup\<close>, which is \<open>undefined\<close>, throws a
  \<open>TypeError\<close> inside the \<open>try\<close> block.
\<close>

definition handleSubmit ::
    "unit backend \<Rightarrow> signup_state
       \<Rightarrow> request list \<times> toast list \<times> string option \<times> signup_state" where
  "handleSubmit net st =
     (let validationErrors = validate (form st)
      in if length (Object_keys validationErrors) > 0
         then ([], [], None, st\<lparr>errors := validationErrors\<rparr>)
         else
           let st1 = st\<lparr>isSubmitting := True\<rparr>;
               (reqs, outcome) =
                 (case authApi_signup of
                    None \<Rightarrow> ([], Inl TypeError)
                  | Some signup \<Rightarrow>
                      signup net
                        [(''username'', JStr (username (form st))),
                         (''email'', JStr (email (form st))),
                         (''password'', JStr (password (form st)))])
           in case outcome of
                Inr r \<Rightarrow>
                  (reqs, [Toast_success msg_signup_done], Some ''/login'',
                   st1\<lparr>isSubmitting := False\<rparr>)
              | Inl err \<Rightarrow>
                  (reqs,
                   [Toast_error (js_or (response_data_message err) (JStr signup_fallback))],
                   None, st1\<lparr>isSubmitting := False\<rparr>))"


section \<open>Properties of objects\<close>

lemma map_of_fold_update_notin:
  "k \<notin> fst ` set src \<Longrightarrow>
     map_of (fold (\<lambda>(k, v). AList.update k v) src tgt) k = map_of tgt k"
  by (induction src arbitrary: tgt) (auto simp: update_conv')

lemma map_of_fold_update_distinct:
  "distinct (map fst src) \<Longrightarrow> (k, v) \<in> set src \<Longrightarrow>
     map_of (fold (\<lambda>(k, v). AList.update k v) src tgt) k = Some v"
proof (induction src arbitrary: tgt)
  case Nil
  then show ?case by simp
next
  case (Cons e src)
  obtain k' v' where e: "e = (k', v')" by (cases e)
  show ?case
  proof (cases "(k, v) \<in> set src")
    case True
    with Cons show ?thesis by simp
  next
    case False
    with Cons.prems e have kv: "k' = k" "v' = v" by auto
    with Cons.prems e have "k \<notin> fst ` set src" by auto
    then show ?thesis
      using e kv by (simp add: map_of_fold_update_notin update_conv')
  qed
qed

lemma dom_fold_update:
  "fst ` set (fold (\<lambda>(k, v). AList.update k v) src tgt) = fst ` set tgt \<union> fst ` set src"
proof (induction src arbitrary: tgt)
  case Nil
  then show ?case by simp
next
  case (Cons e src)
  have "fst ` set (AList.update (fst e) (snd e) tgt) = insert (fst e) (fst ` set tgt)"
    by (simp add: dom_update)
  with Cons show ?case
    by (simp add: case_prod_beta Un_insert_right)
qed

lemma map_of_spread_notin:
  "k \<notin> set (Object_keys source) \<Longrightarrow> map_of (spread target source) k = map_of target k"
  by (simp add: spread_def Object_keys_def map_of_fold_update_notin)


section \<open>The store's actions\<close>

text \<open>
  C1. After \<open>setFilters\<close> with any partial filter object, from any state,
  \<open>pagination.page\<close> is 0, \<open>pagination.size\<close> has its previous value, and every filter
  field that the argument does not mention has its previous value.
\<close>

theorem setFilters_resets_page:
  "page (pagination (setFilters newFilters state)) = 0 \<and>
   size_p (pagination (setFilters newFilters state)) = size_p (pagination state) \<and>
   (\<forall>k. k \<notin> set (Object_keys newFilters) \<longrightarrow>
      map_of (filters (setFilters newFilters state)) k = map_of (filters state) k)"
  by (simp add: setFilters_def map_of_spread_notin)

theorem setFilters_resets_page_witness:
  "''playStyle'' \<notin> set (Object_keys [(''level'', JStr (lit ''12''))]) \<and>
   page (pagination (setFilters [(''level'', JStr (lit ''12''))]
     (setPage 3 (setFilters [(''playStyle'', JStr (lit ''SP''))] scoresStore_init)))) = 0 \<and>
   size_p (pagination (setFilters [(''level'', JStr (lit ''12''))]
     (setPage 3 (setFilters [(''playStyle'', JStr (lit ''SP''))] scoresStore_init)))) = 20 \<and>
   map_of (filters (setFilters [(''level'', JStr (lit ''12''))]
     (setPage 3 (setFilters [(''playStyle'', JStr (lit ''SP''))] scoresStore_init))))
     ''playStyle'' = Some (JStr (lit ''SP''))"
  using setFilters_resets_page
    [of "[(''level'', JStr (lit ''12''))]"
        "setPage 3 (setFilters [(''playStyle'', JStr (lit ''SP''))] scoresStore_init)"]
  by (simp add: Object_keys_def setFilters_def setPage_def scoresStore_init_def spread_def)

text \<open>
  C10. \<open>setPage p\<close>, from any state, changes \<open>pagination.page\<close> to \<open>p\<close> and nothing
  else: the filter object and \<open>pagination.size\<close> are as before.
\<close>

theorem setPage_frame:
  "page (pagination (setPage p state)) = p \<and>
   size_p (pagination (setPage p state)) = size_p (pagination state) \<and>
   filters (setPage p state) = filters state \<and>
   get_prop (filters (setPage p state)) ''playStyle'' = get_prop (filters state) ''playStyle'' \<and>
   get_prop (filters (setPage p state)) ''level'' = get_prop (filters state) ''level'' \<and>
   get_prop (filters (setPage p state)) ''chartType'' = get_prop (filters state) ''chartType'' \<and>
   get_prop (filters (setPage p state)) ''clearType'' = get_prop (filters state) ''clearType''"
  by (simp add: setPage_def)


section \<open>The score-list request\<close>

text \<open>
  C2. \<open>scoresApi.getScores\<close> issues one \<open>GET /scores\<close>. For every field of the params
  object: when its value is the empty string, \<open>null\<close> or \<open>undefined\<close>, the field is
  absent from the params handed to the HTTP client; otherwise it is present there with
  the value it has in the input object.
\<close>

theorem getScores_strips_blank_fields:
  assumes "distinct (map fst params)" and "(k, v) \<in> set params"
  shows "fst (getScores net params) = [Get ''/scores'' (cleanParams params)] \<and>
         (v = JStr [] \<or> v = JNull \<or> v = JUndefined \<longrightarrow>
            k \<notin> set (Object_keys (cleanParams params))) \<and>
         (v \<noteq> JStr [] \<and> v \<noteq> JNull \<and> v \<noteq> JUndefined \<longrightarrow>
            map_of (cleanParams params) k = Some v)"
proof -
  let ?keep = "\<lambda>(k, v). v \<noteq> JStr [] \<and> v \<noteq> JNull \<and> v \<noteq> JUndefined"
  let ?es = "filter ?keep params"
  have d: "distinct (map fst ?es)"
    using assms(1) by (simp add: distinct_map_filter)
  have q: "cleanParams params = fold (\<lambda>(k, v). AList.update k v) ?es []"
    by (simp add: cleanParams_def Object_fromEntries_def Object_entries_def spread_def)
  have absent: "k \<notin> set (Object_keys (cleanParams params))"
    if blank: "v = JStr [] \<or> v = JNull \<or> v = JUndefined"
  proof
    assume "k \<in> set (Object_keys (cleanParams params))"
    then have "k \<in> fst ` set ?es"
      by (simp add: q Object_keys_def dom_fold_update)
    then obtain v' where v': "(k, v') \<in> set params" "?keep (k, v')" by auto
    from assms v'(1) have "v' = v"
      by (meson eq_key_imp_eq_value)
    with v'(2) blank show False by auto
  qed
  have present: "map_of (cleanParams params) k = Some v"
    if "v \<noteq> JStr [] \<and> v \<noteq> JNull \<and> v \<noteq> JUndefined"
  proof -
    from that assms(2) have "(k, v) \<in> set ?es" by simp
    with d show ?thesis
      unfolding q by (rule map_of_fold_update_distinct)
  qed
  show ?thesis
    using absent present by (simp add: getScores_def Let_def)
qed

theorem getScores_strips_blank_fields_witness:
  "distinct (map fst [(''level'', JNum 12), (''playStyle'', JStr []), (''clearType'', JNull)]) \<and>
   (''playStyle'', JStr []) \<in> set [(''level'', JNum 12), (''playStyle'', JStr []), (''clearType'', JNull)] \<and>
   (''level'', JNum 12) \<in> set [(''level'', JNum 12), (''playStyle'', JStr []), (''clearType'', JNull)] \<and>
   fst (getScores (\<lambda>r. Inl NetworkError :: js_error + unit)
         [(''level'', JNum 12), (''playStyle'', JStr []), (''clearType'', JNull)])
     = [Get ''/scores'' [(''level'', JNum 12)]] \<and>
   ''playStyle'' \<notin> set (Object_keys
       (cleanParams [(''level'', JNum 12), (''playStyle'', JStr []), (''clearType'', JNull)])) \<and>
   map_of (cleanParams [(''level'', JNum 12), (''playStyle'', JStr []), (''clearType'', JNull)])
       ''level'' = Some (JNum 12)"
  using getScores_strips_blank_fields
      [of "[(''level'', JNum 12), (''playStyle'', JStr []), (''clearType'', JNull)]"
          "''playStyle''" "JStr []" "\<lambda>r. Inl NetworkError :: js_error + unit"]
    getScores_strips_blank_fields
      [of "[(''level'', JNum 12), (''playStyle'', JStr []), (''clearType'', JNull)]"
          "''level''" "JNum 12" "\<lambda>r. Inl NetworkError :: js_error + unit"]
  by (simp add: getScores_def cleanParams_def Object_fromEntries_def Object_entries_def
        Object_keys_def spread_def)


text \<open>The other revision of \<open>getScores\<close> transmits every field, blank ones included.\<close>

lemma getScores_passthrough_requests:
  "fst (getScores_passthrough net params) = [Get ''/scores'' params]"
  by (simp add: getScores_passthrough_def Let_def)


section \<open>The route guard\<close>

text \<open>
  C4. While the auth store is loading, \<open>ProtectedRoute\<close> renders the waiting screen:
  neither the protected children nor a redirect. Not loading and with \<open>user\<close> null,
  it redirects to \<open>/login\<close>; not loading and with a user, it renders the children.
\<close>

theorem ProtectedRoute_guard:
  "ProtectedRoute (store\<lparr>isLoading := True\<rparr>) children = LoadingScreen \<and>
   ProtectedRoute (store\<lparr>isLoading := True\<rparr>) children \<noteq> Children children \<and>
   ProtectedRoute (store\<lparr>isLoading := True\<rparr>) children \<noteq> Navigate target replace \<and>
   ProtectedRoute (store\<lparr>isLoading := False, user := None\<rparr>) children = Navigate ''/login'' True \<and>
   ProtectedRoute (store\<lparr>isLoading := False, user := Some u\<rparr>) children = Children children"
  by (simp add: ProtectedRoute_def)



section \<open>The score-query hook\<close>

lemma fetchScores_requests:
  "\<exists>req. fst (fetchScores store net st) = [req]"
  by (simp add: fetchScores_def getScores_def Let_def split: sum.split)

text \<open>
  C5, as amended. \<open>fetchScores\<close> issues one request and always ends with \<open>isLoading\<close>
  false. When the request is rejected with a payload whose \<open>message\<close> is a non-empty
  string \<open>X\<close>, \<open>error\<close> is \<open>X\<close>; when the rejection carries no truthy \<open>message\<close>
  (none at all, or the empty string), \<open>error\<close> is the generic fallback; on success
  \<open>error\<close> is null and \<open>data\<close> is the response body.
\<close>

theorem fetchScores_error_contract:
  "\<exists>req. fst (fetchScores store net st) = [req] \<and>
     isLoading (snd (fetchScores store net st)) = False \<and>
     (\<forall>err X. net req = Inl err \<and> response_data_message err = JStr X \<and> X \<noteq> [] \<longrightarrow>
        error (snd (fetchScores store net st)) = JStr X) \<and>
     (\<forall>err. net req = Inl err \<and> \<not> ToBoolean (response_data_message err) \<longrightarrow>
        error (snd (fetchScores store net st)) = JStr scores_fallback) \<and>
     (\<forall>r. net req = Inr r \<longrightarrow>
        error (snd (fetchScores store net st)) = JNull \<and>
        data (snd (fetchScores store net st)) = Some r)"
  by (simp add: fetchScores_def getScores_def Let_def js_or_def split: sum.split)

theorem fetchScores_error_contract_witness:
  "error (snd (fetchScores scoresStore_init
      (\<lambda>r. Inl (HttpError 500 (Some [(''message'', JStr (lit ''X''))])))
      (useScores_init :: unit useScores_state))) = JStr (lit ''X'') \<and>
   isLoading (snd (fetchScores scoresStore_init
      (\<lambda>r. Inl (HttpError 500 (Some [(''message'', JStr (lit ''X''))])))
      (useScores_init :: unit useScores_state))) = False \<and>
   error (snd (fetchScores scoresStore_init (\<lambda>r. Inl NetworkError)
      (useScores_init :: unit useScores_state))) = JStr scores_fallback"
  using fetchScores_error_contract
    [of scoresStore_init "\<lambda>r. Inl (HttpError 500 (Some [(''message'', JStr (lit ''X''))]))"
        "useScores_init :: unit useScores_state"]
    fetchScores_error_contract
    [of scoresStore_init "\<lambda>r. Inl NetworkError" "useScores_init :: unit useScores_state"]
  by (simp add: fetchScores_def getScores_def Let_def js_or_def get_prop_def lit_def)

text \<open>
  C5 as stated fails for the empty message: a rejection with payload
  \<open>{response: {data: {message: ""}}}\<close> ends with the fallback text, not with \<open>""\<close>.
\<close>

theorem fetchScores_empty_message_counterexample:
  "error (snd (fetchScores scoresStore_init
      (\<lambda>r. Inl (HttpError 500 (Some [(''message'', JStr [])])))
      (useScores_init :: unit useScores_state))) = JStr scores_fallback \<and>
   JStr scores_fallback \<noteq> JStr []"
  by (simp add: fetchScores_def getScores_def Let_def js_or_def get_prop_def scores_fallback_def)



section \<open>The dashboard hook\<close>

lemma dashboard_requests:
  "concat (map fst (map (getScores net) dashboard_params)) =
     [Get ''/scores'' [(''size'', JNum 1)],
      Get ''/scores'' [(''clearType'', JStr (lit ''FULL_COMBO'')), (''size'', JNum 1)],
      Get ''/scores'' [(''clearType'', JStr (lit ''EX_HARD_CLEAR'')), (''size'', JNum 1)],
      Get ''/scores'' [(''clearType'', JStr (lit ''HARD_CLEAR'')), (''size'', JNum 1)],
      Get ''/scores'' [(''clearType'', JStr (lit ''CLEAR'')), (''size'', JNum 1)],
      Get ''/scores'' [(''page'', JNum 0), (''size'', JNum 5)]]"
  by (simp add: dashboard_params_def getScores_def cleanParams_def Object_fromEntries_def
      Object_entries_def spread_def lit_def Let_def)

lemma fetchDashboardData_requests:
  "fst (fetchDashboardData store net order st) =
     concat (map fst (map (getScores net) dashboard_params))"
  by (simp add: fetchDashboardData_def ToBoolean_object_def Let_def split: sum.split)

text \<open>
  C3. With no session (\<open>user\<close> null, so that calling \<open>isAuthenticated\<close> gives false)
  one invocation of \<open>fetchDashboardData\<close> still issues the six list requests: the gate
  tests the function, which is truthy, and never closes.
\<close>

theorem fetchDashboardData_without_session:
  "fst (fetchDashboardData \<lparr>isLoading = False, error = JNull, user = None\<rparr> net order st) =
     [Get ''/scores'' [(''size'', JNum 1)],
      Get ''/scores'' [(''clearType'', JStr (lit ''FULL_COMBO'')), (''size'', JNum 1)],
      Get ''/scores'' [(''clearType'', JStr (lit ''EX_HARD_CLEAR'')), (''size'', JNum 1)],
      Get ''/scores'' [(''clearType'', JStr (lit ''HARD_CLEAR'')), (''size'', JNum 1)],
      Get ''/scores'' [(''clearType'', JStr (lit ''CLEAR'')), (''size'', JNum 1)],
      Get ''/scores'' [(''page'', JNum 0), (''size'', JNum 5)]] \<and>
   isAuthenticated \<lparr>isLoading = False, error = JNull, user = None\<rparr> () = False"
  unfolding fetchDashboardData_requests dashboard_requests
  by (simp add: isAuthenticated_def)



lemma Promise_all_rejects:
  assumes "j \<in> set order" and "j < length ps" and "isl (ps ! j)"
  shows "\<exists>i \<in> set order. i < length ps \<and> isl (ps ! i) \<and>
           Promise_all order ps = Inl (projl (ps ! i))"
proof -
  let ?fs = "filter (\<lambda>i. i < length ps \<and> isl (ps ! i)) order"
  from assms have "j \<in> set ?fs" by simp
  then obtain i rest where fs: "?fs = i # rest"
    by (cases ?fs) auto
  then have "i \<in> set ?fs" by simp
  then have "i \<in> set order" "i < length ps" "isl (ps ! i)" by auto
  moreover have "Promise_all order ps = Inl (projl (ps ! i))"
    by (simp add: Promise_all_def fs)
  ultimately show ?thesis by blast
qed

lemma Promise_all_resolves:
  assumes "\<And>i. i < length ps \<Longrightarrow> \<not> isl (ps ! i)"
  shows "Promise_all order ps = Inr (map projr ps)"
proof -
  have "filter (\<lambda>i. i < length ps \<and> isl (ps ! i)) order = []"
    using assms by (simp add: filter_empty_conv)
  then show ?thesis by (simp add: Promise_all_def)
qed

lemma length_dashboard_params: "length dashboard_params = 6"
  by (simp add: dashboard_params_def)

lemma js_or_fallback_truthy: "fb \<noteq> [] \<Longrightarrow> ToBoolean (js_or v (JStr fb))"
  by (simp add: js_or_def)

lemma dashboard_fallback_nonempty: "dashboard_fallback \<noteq> []"
  by (simp add: dashboard_fallback_def)

text \<open>
  C9. When one of the six requests is rejected, the invocation ends with the stats and
  the recent list as they were before, not loading, and with one error message: the
  message of a rejected request's payload, or the fallback text.
\<close>

theorem fetchDashboardData_fails_as_a_whole:
  assumes "\<exists>p \<in> set dashboard_params. isl (snd (getScores net p))"
    and "set order = {0..<6}"
  shows "stats (snd (fetchDashboardData store net order st)) = stats st \<and>
         recentScores (snd (fetchDashboardData store net order st)) = recentScores st \<and>
         isLoading (snd (fetchDashboardData store net order st)) = False \<and>
         ToBoolean (error (snd (fetchDashboardData store net order st))) \<and>
         (\<exists>p err. p \<in> set dashboard_params \<and> snd (getScores net p) = Inl err \<and>
            error (snd (fetchDashboardData store net order st)) =
              js_or (response_data_message err) (JStr dashboard_fallback))"
proof -
  let ?ps = "map snd (map (getScores net) dashboard_params)"
  from assms(1) obtain j where j: "j < 6" "isl (?ps ! j)"
    by (auto simp: in_set_conv_nth length_dashboard_params)
  with assms(2) have "j \<in> set order" "j < length ?ps"
    by (simp_all add: length_dashboard_params)
  from Promise_all_rejects [OF this j(2)]
  obtain i where i: "i < length ?ps" "isl (?ps ! i)"
      "Promise_all order ?ps = Inl (projl (?ps ! i))"
    by blast
  let ?err = "projl (?ps ! i)"
  have il: "i < length dashboard_params" using i(1) by simp
  have mem: "dashboard_params ! i \<in> set dashboard_params"
    using il by simp
  have out: "snd (getScores net (dashboard_params ! i)) = Inl ?err"
    using i(2) il by simp
  have st': "snd (fetchDashboardData store net order st) =
      st\<lparr>isLoading := False,
         error := js_or (response_data_message ?err) (JStr dashboard_fallback)\<rparr>"
    using i(3) by (simp add: fetchDashboardData_def ToBoolean_object_def Let_def)
  show ?thesis
    unfolding st' using mem out
    by (auto simp: js_or_fallback_truthy dashboard_fallback_nonempty)
qed

text \<open>
  When all six requests succeed, the stats are the \<open>totalElements\<close> of the first five
  responses and the recent list is the content of the sixth.
\<close>

lemma fetchDashboardData_success:
  assumes "map snd (map (getScores net) dashboard_params) = map Inr rs"
  shows "snd (fetchDashboardData store net order st) =
     st\<lparr>isLoading := False, error := JNull,
        stats := \<lparr>total_s = totalElements (rs ! 0), fullCombo = totalElements (rs ! 1),
                  exHard = totalElements (rs ! 2), hard = totalElements (rs ! 3),
                  clear = totalElements (rs ! 4)\<rparr>,
        recentScores := content (rs ! 5)\<rparr>"
proof -
  have "Promise_all order (map Inr rs) = Inr rs"
    by (subst Promise_all_resolves) (simp_all add: comp_def)
  then have pa: "Promise_all order (map snd (map (getScores net) dashboard_params)) = Inr rs"
    by (simp only: assms)
  show ?thesis
    unfolding fetchDashboardData_def Let_def pa
    by (simp add: ToBoolean_object_def)
qed


theorem fetchDashboardData_fails_as_a_whole_witness:
  "(\<exists>p \<in> set dashboard_params.
      isl (snd (getScores
        (\<lambda>r. if r = Get ''/scores'' [(''size'', JNum 1)]
           then Inl (HttpError 500 (Some [(''message'', JStr (lit ''down''))]))
           else Inr (\<lparr>content = [], totalElements = 7, totalPages = 7, number = 0\<rparr>
                  :: unit score_page)) p))) \<and>
   set (rev [0..<6]) = {0..<6} \<and>
   stats (snd (fetchDashboardData authStore_init
        (\<lambda>r. if r = Get ''/scores'' [(''size'', JNum 1)]
           then Inl (HttpError 500 (Some [(''message'', JStr (lit ''down''))]))
           else Inr (\<lparr>content = [], totalElements = 7, totalPages = 7, number = 0\<rparr>
                  :: unit score_page))
        (rev [0..<6]) (useDashboard_init :: unit useDashboard_state)))
     = \<lparr>total_s = 0, fullCombo = 0, exHard = 0, hard = 0, clear = 0\<rparr> \<and>
   ToBoolean (error (snd (fetchDashboardData authStore_init
        (\<lambda>r. if r = Get ''/scores'' [(''size'', JNum 1)]
           then Inl (HttpError 500 (Some [(''message'', JStr (lit ''down''))]))
           else Inr (\<lparr>content = [], totalElements = 7, totalPages = 7, number = 0\<rparr>
                  :: unit score_page))
        (rev [0..<6]) (useDashboard_init :: unit useDashboard_state))))"
proof -
  let ?net = "\<lambda>r. if r = Get ''/scores'' [(''size'', JNum 1)]
           then Inl (HttpError 500 (Some [(''message'', JStr (lit ''down''))]))
           else Inr \<lparr>content = [], totalElements = 7, totalPages = 7, number = 0\<rparr>
         :: js_error + unit score_page"
  have h1: "\<exists>p \<in> set dashboard_params. isl (snd (getScores ?net p))"
    by (simp add: dashboard_params_def getScores_def cleanParams_def Object_fromEntries_def
        Object_entries_def spread_def Let_def)
  have h2: "set (rev [0..<6]) = {0..<6}" by simp
  note r = fetchDashboardData_fails_as_a_whole [OF h1 h2, of authStore_init useDashboard_init]
  have c1: "stats (snd (fetchDashboardData authStore_init ?net (rev [0..<6])
        (useDashboard_init :: unit useDashboard_state)))
      = \<lparr>total_s = 0, fullCombo = 0, exHard = 0, hard = 0, clear = 0\<rparr>"
    using r by (simp add: useDashboard_init_def)
  have c2: "ToBoolean (error (snd (fetchDashboardData authStore_init ?net (rev [0..<6])
        (useDashboard_init :: unit useDashboard_state))))"
    using r by blast
  from h1 h2 c1 c2 show ?thesis by (intro conjI)
qed


section \<open>The CSV upload page\<close>

lemma handleFileSelect_rejected:
  assumes "\<not> endsWith (name f) (lit ''.csv'') \<or> size_f f > 10 * 1024 * 1024"
  shows "\<exists>msg. handleFileSelect (Some f) st = ([], [Toast_error (JStr msg)], st)"
  using assms by (auto simp: handleFileSelect_def validateFile_def)

lemma handleUpload_no_file:
  "file_st st = None \<Longrightarrow> handleUpload net evs st = ([], [], st)"
  by (simp add: handleUpload_def)

lemma handleUpload_requests:
  "file_st st = Some g \<Longrightarrow>
     fst (handleUpload net evs st) =
       [PostForm ''/import/iidx/score''
          [(''file'', FilePart g), (''playStyle'', TextPart (playStyle st))]]"
  by (simp add: handleUpload_def uploadCsv_def Let_def split: sum.split)

text \<open>
  C6. Selecting a file whose name does not end in \<open>.csv\<close>, or a file larger than
  10 MiB, shows one error toast, sends no request and leaves the page state as it was,
  so that with no file accepted before, a submission sends nothing. A file whose name
  ends in \<open>.csv\<close> and whose size is at most 10 MiB (1 KiB, say) is accepted, and
  submitting it sends exactly one upload request, carrying that file and the play
  style selected at that moment.
\<close>

theorem csv_validation_before_upload:
  "(\<not> endsWith (name f) (lit ''.csv'') \<or> size_f f > 10 * 1024 * 1024 \<longrightarrow>
      (\<exists>msg. handleFileSelect (Some f) st = ([], [Toast_error (JStr msg)], st)) \<and>
      (file_st st = None \<longrightarrow>
         handleUpload net evs (snd (snd (handleFileSelect (Some f) st))) = ([], [], st))) \<and>
   (endsWith (name g) (lit ''.csv'') \<and> size_f g \<le> 10 * 1024 * 1024 \<longrightarrow>
      handleFileSelect (Some g) st =
        ([], [], st\<lparr>file_st := Some g, uploadState := Idle, result := None\<rparr>) \<and>
      fst (handleUpload net evs (setPlayStyle style (snd (snd (handleFileSelect (Some g) st))))) =
        [PostForm ''/import/iidx/score''
           [(''file'', FilePart g), (''playStyle'', TextPart style)]])"
proof (intro conjI impI)
  assume rej: "\<not> endsWith (name f) (lit ''.csv'') \<or> size_f f > 10 * 1024 * 1024"
  from handleFileSelect_rejected [OF rej]
  show "\<exists>msg. handleFileSelect (Some f) st = ([], [Toast_error (JStr msg)], st)" .
  assume "file_st st = None"
  with handleFileSelect_rejected [OF rej, of st]
  show "handleUpload net evs (snd (snd (handleFileSelect (Some f) st))) = ([], [], st)"
    by (auto simp: handleUpload_no_file)
next
  assume ok: "endsWith (name g) (lit ''.csv'') \<and> size_f g \<le> 10 * 1024 * 1024"
  then show sel: "handleFileSelect (Some g) st =
        ([], [], st\<lparr>file_st := Some g, uploadState := Idle, result := None\<rparr>)"
    by (simp add: handleFileSelect_def validateFile_def)
  show "fst (handleUpload net evs (setPlayStyle style (snd (snd (handleFileSelect (Some g) st))))) =
        [PostForm ''/import/iidx/score''
           [(''file'', FilePart g), (''playStyle'', TextPart style)]]"
    unfolding sel by (simp add: handleUpload_requests setPlayStyle_def)
qed

theorem csv_validation_before_upload_witness:
  "\<not> endsWith (name \<lparr>name = lit ''data.txt'', size_f = 1024\<rparr>) (lit ''.csv'') \<and>
   size_f \<lparr>name = lit ''data.csv'', size_f = 11 * 1024 * 1024\<rparr> > 10 * 1024 * 1024 \<and>
   endsWith (name \<lparr>name = lit ''data.csv'', size_f = 1024\<rparr>) (lit ''.csv'') \<and>
   size_f \<lparr>name = lit ''data.csv'', size_f = 1024\<rparr> \<le> 10 * 1024 * 1024 \<and>
   file_st CsvUpload_init = None \<and>
   handleFileSelect (Some \<lparr>name = lit ''data.txt'', size_f = 1024\<rparr>) CsvUpload_init =
     ([], [Toast_error (JStr msg_csv_only)], CsvUpload_init) \<and>
   handleFileSelect (Some \<lparr>name = lit ''data.csv'', size_f = 11 * 1024 * 1024\<rparr>) CsvUpload_init =
     ([], [Toast_error (JStr msg_too_large)], CsvUpload_init) \<and>
   handleUpload (\<lambda>r. Inl NetworkError) []
     (snd (snd (handleFileSelect (Some \<lparr>name = lit ''data.txt'', size_f = 1024\<rparr>) CsvUpload_init)))
     = ([], [], CsvUpload_init) \<and>
   fst (handleUpload (\<lambda>r. Inl NetworkError) []
     (setPlayStyle (lit ''DP'')
       (snd (snd (handleFileSelect (Some \<lparr>name = lit ''data.csv'', size_f = 1024\<rparr>)
          CsvUpload_init)))))
     = [PostForm ''/import/iidx/score''
          [(''file'', FilePart \<lparr>name = lit ''data.csv'', size_f = 1024\<rparr>),
           (''playStyle'', TextPart (lit ''DP''))]]"
  using csv_validation_before_upload
    [of "\<lparr>name = lit ''data.txt'', size_f = 1024\<rparr>" CsvUpload_init
        "\<lambda>r. Inl NetworkError" "[]" "\<lparr>name = lit ''data.csv'', size_f = 1024\<rparr>"
        "lit ''DP''"]
    csv_validation_before_upload
    [of "\<lparr>name = lit ''data.csv'', size_f = 11 * 1024 * 1024\<rparr>" CsvUpload_init
        "\<lambda>r. Inl NetworkError" "[]" "\<lparr>name = lit ''data.csv'', size_f = 1024\<rparr>"
        "lit ''DP''"]
  by (simp add: endsWith_def lit_def handleFileSelect_def validateFile_def CsvUpload_init_def
      handleUpload_def uploadCsv_def setProgress_def setPlayStyle_def Let_def)


text \<open>The same for every upload: whatever the events, the callback's state is untouched.\<close>

lemma uploadCsv_ignores_callback:
  "fst (snd (uploadCsv net evs f ps onProgress st)) = st"
  by (simp add: uploadCsv_def Let_def)

lemma handleUpload_progress:
  "progress (snd (snd (handleUpload net evs (st\<lparr>file_st := Some f\<rparr>)))) = 0"
  by (simp add: handleUpload_def uploadCsv_def setProgress_def Let_def split: sum.split)

text \<open>
  The other revision of \<open>uploadCsv\<close> does report: for each progress event with a truthy
  total, in order, the callback receives the rounded percentage; and when the rounding
  is monotone in the bytes sent and the events carry non-decreasing \<open>loaded\<close> counts
  and one total, the percentages delivered are non-decreasing.
\<close>

lemma fold_onUploadProgress_log:
  "fold (onUploadProgress rp (Some (\<lambda>p log. log @ [p]))) evs acc =
     acc @ concat (map (\<lambda>e. case total_e e of None \<Rightarrow> []
                              | Some tot \<Rightarrow> if tot = 0 then [] else [rp (loaded e) tot]) evs)"
  by (induction evs arbitrary: acc)
     (simp_all add: onUploadProgress_def split: option.split)

lemma uploadCsv_onProgress_delivers:
  "fst (snd (uploadCsv_onProgress rp net evs f ps (Some (\<lambda>p log. log @ [p])) [])) =
     concat (map (\<lambda>e. case total_e e of None \<Rightarrow> []
                    | Some tot \<Rightarrow> if tot = 0 then [] else [rp (loaded e) tot]) evs)"
  by (simp add: uploadCsv_onProgress_def Let_def fold_onUploadProgress_log)

lemma sorted_reported:
  assumes "\<And>l l'. l \<le> l' \<Longrightarrow> rp l t \<le> rp l' t"
    and "sorted (map loaded evs)"
    and "\<forall>e \<in> set evs. total_e e = None \<or> total_e e = Some t"
  shows "sorted (concat (map (\<lambda>e. case total_e e of None \<Rightarrow> []
                              | Some tot \<Rightarrow> if tot = 0 then [] else [rp (loaded e) tot]) evs))"
  using assms(2,3)
proof (induction evs)
  case Nil
  then show ?case by simp
next
  case (Cons e evs)
  let ?r = "\<lambda>e. case total_e e of None \<Rightarrow> []
                 | Some tot \<Rightarrow> if tot = 0 then [] else [rp (loaded e) tot]"
  from Cons have ih: "sorted (concat (map ?r evs))" by simp
  have le: "x \<le> y" if "x \<in> set (?r e)" "y \<in> set (concat (map ?r evs))" for x y
  proof -
    from that(2) obtain e' where e': "e' \<in> set evs" "y \<in> set (?r e')" by auto
    from Cons.prems(1) e'(1) have "loaded e \<le> loaded e'" by simp
    moreover from that(1) Cons.prems(2) have "x = rp (loaded e) t"
      by (auto split: option.splits if_splits)
    moreover from e' Cons.prems(2) have "y = rp (loaded e') t"
      by (auto split: option.splits if_splits)
    ultimately show ?thesis by (simp add: assms(1))
  qed
  have "sorted (?r e)"
    by (simp split: option.split)
  with ih le show ?case
    by (simp add: sorted_append)
qed

lemma uploadCsv_onProgress_sorted:
  assumes "\<And>l l'. l \<le> l' \<Longrightarrow> rp l t \<le> rp l' t"
    and "sorted (map loaded evs)"
    and "\<forall>e \<in> set evs. total_e e = None \<or> total_e e = Some t"
  shows "sorted (fst (snd (uploadCsv_onProgress rp net evs f ps (Some (\<lambda>p log. log @ [p])) [])))"
  unfolding uploadCsv_onProgress_delivers
  using assms by (rule sorted_reported)


section \<open>The signup page\<close>

lemma includes_js_single: "includes_js s [c] = (c \<in> set s)"
  by (induction s) auto

lemma validate_empty_iff:
  "validate f = [] \<longleftrightarrow>
     trim (username f) \<noteq> [] \<and> 3 \<le> length (username f) \<and>
     includes_js (email f) (lit ''@'') \<and> 8 \<le> length (password f) \<and>
     password f = passwordConfirm f"
  by (auto simp: validate_def Let_def set_prop_def)

lemma validate_username:
  "length (username f) < 3 \<or> trim (username f) = [] \<Longrightarrow>
     get_prop (validate f) ''username'' =
       JStr (if trim (username f) = [] then msg_username_required else msg_username_short)"
  by (auto simp: validate_def Let_def set_prop_def get_prop_def update_conv')

lemma validate_email:
  "\<not> includes_js (email f) (lit ''@'') \<Longrightarrow>
     get_prop (validate f) ''email'' = JStr msg_email_invalid"
  by (auto simp: validate_def Let_def set_prop_def get_prop_def update_conv')

lemma validate_password:
  "length (password f) < 8 \<Longrightarrow>
     get_prop (validate f) ''password'' = JStr msg_password_short"
  by (auto simp: validate_def Let_def set_prop_def get_prop_def update_conv')

lemma validate_passwordConfirm:
  "password f \<noteq> passwordConfirm f \<Longrightarrow>
     get_prop (validate f) ''passwordConfirm'' = JStr msg_password_mismatch"
  by (auto simp: validate_def Let_def set_prop_def get_prop_def update_conv')

lemma handleSubmit_blocked:
  "validate (form st) \<noteq> [] \<Longrightarrow>
     handleSubmit net st = ([], [], None, st\<lparr>errors := validate (form st)\<rparr>)"
  by (simp add: handleSubmit_def Let_def Object_keys_def)

lemma handleSubmit_passed:
  "validate (form st) = [] \<Longrightarrow>
     errors (snd (snd (snd (handleSubmit net st)))) = errors st"
  by (simp add: handleSubmit_def Let_def Object_keys_def authApi_signup_def)


text \<open>
  C7, as amended. Each of the four invalid conditions (identifier shorter than 3 code
  units, email without \<open>@\<close>, password shorter than 8, confirmation different from the
  password), and a blank identifier as well, blocks the submission on its own:
  \<open>handleSubmit\<close> sends no request, shows no toast, and replaces the errors by the
  validation result, in which the field of the condition carries its message. When
  none of them holds, validation finds nothing and \<open>handleSubmit\<close> leaves the errors
  state as it was.
\<close>

theorem signup_validation:
  "(length (username (form st)) < 3 \<longrightarrow>
      handleSubmit net st = ([], [], None, st\<lparr>errors := validate (form st)\<rparr>) \<and>
      get_prop (validate (form st)) ''username'' =
        JStr (if trim (username (form st)) = [] then msg_username_required
              else msg_username_short)) \<and>
   (\<not> includes_js (email (form st)) (lit ''@'') \<longrightarrow>
      handleSubmit net st = ([], [], None, st\<lparr>errors := validate (form st)\<rparr>) \<and>
      get_prop (validate (form st)) ''email'' = JStr msg_email_invalid) \<and>
   (length (password (form st)) < 8 \<longrightarrow>
      handleSubmit net st = ([], [], None, st\<lparr>errors := validate (form st)\<rparr>) \<and>
      get_prop (validate (form st)) ''password'' = JStr msg_password_short) \<and>
   (password (form st) \<noteq> passwordConfirm (form st) \<longrightarrow>
      handleSubmit net st = ([], [], None, st\<lparr>errors := validate (form st)\<rparr>) \<and>
      get_prop (validate (form st)) ''passwordConfirm'' = JStr msg_password_mismatch) \<and>
   (trim (username (form st)) = [] \<longrightarrow>
      handleSubmit net st = ([], [], None, st\<lparr>errors := validate (form st)\<rparr>) \<and>
      get_prop (validate (form st)) ''username'' = JStr msg_username_required) \<and>
   (trim (username (form st)) \<noteq> [] \<and> 3 \<le> length (username (form st)) \<and>
    includes_js (email (form st)) (lit ''@'') \<and> 8 \<le> length (password (form st)) \<and>
    password (form st) = passwordConfirm (form st) \<longrightarrow>
      validate (form st) = [] \<and>
      errors (snd (snd (snd (handleSubmit net st)))) = errors st)"
proof (intro conjI impI)
  assume "length (username (form st)) < 3"
  then show "handleSubmit net st = ([], [], None, st\<lparr>errors := validate (form st)\<rparr>)"
    by (intro handleSubmit_blocked) (simp add: validate_empty_iff)
next
  assume "length (username (form st)) < 3"
  then show "get_prop (validate (form st)) ''username'' =
        JStr (if trim (username (form st)) = [] then msg_username_required
              else msg_username_short)"
    by (simp add: validate_username)
next
  assume "\<not> includes_js (email (form st)) (lit ''@'')"
  then show "handleSubmit net st = ([], [], None, st\<lparr>errors := validate (form st)\<rparr>)"
    by (intro handleSubmit_blocked) (simp add: validate_empty_iff)
next
  assume "\<not> includes_js (email (form st)) (lit ''@'')"
  then show "get_prop (validate (form st)) ''email'' = JStr msg_email_invalid"
    by (rule validate_email)
next
  assume "length (password (form st)) < 8"
  then show "handleSubmit net st = ([], [], None, st\<lparr>errors := validate (form st)\<rparr>)"
    by (intro handleSubmit_blocked) (simp add: validate_empty_iff)
next
  assume "length (password (form st)) < 8"
  then show "get_prop (validate (form st)) ''password'' = JStr msg_password_short"
    by (rule validate_password)
next
  assume "password (form st) \<noteq> passwordConfirm (form st)"
  then show "handleSubmit net st = ([], [], None, st\<lparr>errors := validate (form st)\<rparr>)"
    by (intro handleSubmit_blocked) (simp add: validate_empty_iff)
next
  assume "password (form st) \<noteq> passwordConfirm (form st)"
  then show "get_prop (validate (form st)) ''passwordConfirm'' = JStr msg_password_mismatch"
    by (rule validate_passwordConfirm)
next
  assume "trim (username (form st)) = []"
  then show "handleSubmit net st = ([], [], None, st\<lparr>errors := validate (form st)\<rparr>)"
    by (intro handleSubmit_blocked) (simp add: validate_empty_iff)
next
  assume "trim (username (form st)) = []"
  then show "get_prop (validate (form st)) ''username'' = JStr msg_username_required"
    by (simp add: validate_username)
next
  assume ok: "trim (username (form st)) \<noteq> [] \<and> 3 \<le> length (username (form st)) \<and>
    includes_js (email (form st)) (lit ''@'') \<and> 8 \<le> length (password (form st)) \<and>
    password (form st) = passwordConfirm (form st)"
  then show v: "validate (form st) = []"
    unfolding validate_empty_iff by blast
  then show "errors (snd (snd (snd (handleSubmit net st)))) = errors st"
    by (rule handleSubmit_passed)
qed

lemma trim_abc: "trim (lit ''abc'') = lit ''abc''"
  by (simp add: trim_def lit_def is_space_def)

lemma trim_blank: "trim (lit ''   '') = []"
  by (simp add: trim_def lit_def is_space_def)

text \<open>
  C7 as stated fails: a submission with a mismatched confirmation sets the
  confirmation error; shortening the password to match then makes every field valid,
  and the next submission keeps that error (nothing clears it) and sends no request.
\<close>

theorem signup_stale_errors_counterexample:
  "validate (form (handleChange Password (lit ''12345678'')
       (snd (snd (snd (handleSubmit (\<lambda>r. Inr ())
          \<lparr>form = \<lparr>username = lit ''abc'', email = lit ''a@b'', password = lit ''123456789'',
                    passwordConfirm = lit ''12345678''\<rparr>,
           errors = [], isSubmitting = False\<rparr>)))))) = [] \<and>
   errors (snd (snd (snd (handleSubmit (\<lambda>r. Inr ())
     (handleChange Password (lit ''12345678'')
       (snd (snd (snd (handleSubmit (\<lambda>r. Inr ())
          \<lparr>form = \<lparr>username = lit ''abc'', email = lit ''a@b'', password = lit ''123456789'',
                    passwordConfirm = lit ''12345678''\<rparr>,
           errors = [], isSubmitting = False\<rparr>))))))))) =
     [(''passwordConfirm'', JStr msg_password_mismatch)] \<and>
   fst (handleSubmit (\<lambda>r. Inr ())
     (handleChange Password (lit ''12345678'')
       (snd (snd (snd (handleSubmit (\<lambda>r. Inr ())
          \<lparr>form = \<lparr>username = lit ''abc'', email = lit ''a@b'', password = lit ''123456789'',
                    passwordConfirm = lit ''12345678''\<rparr>,
           errors = [], isSubmitting = False\<rparr>)))))) = []"
  by (simp add: handleSubmit_def handleChange_def validate_def Let_def Object_keys_def
      set_prop_def get_prop_def authApi_signup_def trim_def is_space_def lit_def)


theorem signup_validation_witness:
  "length (username (form
     \<lparr>form = \<lparr>username = lit ''ab'', email = lit ''a@b'', password = lit ''12345678'',
        passwordConfirm = lit ''12345678''\<rparr>, errors = [], isSubmitting = False\<rparr>)) < 3 \<and>
   handleSubmit (\<lambda>r. Inr ())
     \<lparr>form = \<lparr>username = lit ''ab'', email = lit ''a@b'', password = lit ''12345678'',
        passwordConfirm = lit ''12345678''\<rparr>, errors = [], isSubmitting = False\<rparr> =
     ([], [], None,
      \<lparr>form = \<lparr>username = lit ''ab'', email = lit ''a@b'', password = lit ''12345678'',
        passwordConfirm = lit ''12345678''\<rparr>, errors = [], isSubmitting = False\<rparr>
        \<lparr>errors := [(''username'', JStr msg_username_short)]\<rparr>) \<and>
   \<not> includes_js (email (form
     \<lparr>form = \<lparr>username = lit ''abc'', email = lit ''ab'', password = lit ''12345678'',
        passwordConfirm = lit ''12345678''\<rparr>, errors = [], isSubmitting = False\<rparr>)) (lit ''@'') \<and>
   handleSubmit (\<lambda>r. Inr ())
     \<lparr>form = \<lparr>username = lit ''abc'', email = lit ''ab'', password = lit ''12345678'',
        passwordConfirm = lit ''12345678''\<rparr>, errors = [], isSubmitting = False\<rparr> =
     ([], [], None,
      \<lparr>form = \<lparr>username = lit ''abc'', email = lit ''ab'', password = lit ''12345678'',
        passwordConfirm = lit ''12345678''\<rparr>, errors = [], isSubmitting = False\<rparr>
        \<lparr>errors := [(''email'', JStr msg_email_invalid)]\<rparr>) \<and>
   length (password (form
     \<lparr>form = \<lparr>username = lit ''abc'', email = lit ''a@b'', password = lit ''1234567'',
        passwordConfirm = lit ''1234567''\<rparr>, errors = [], isSubmitting = False\<rparr>)) < 8 \<and>
   handleSubmit (\<lambda>r. Inr ())
     \<lparr>form = \<lparr>username = lit ''abc'', email = lit ''a@b'', password = lit ''1234567'',
        passwordConfirm = lit ''1234567''\<rparr>, errors = [], isSubmitting = False\<rparr> =
     ([], [], None,
      \<lparr>form = \<lparr>username = lit ''abc'', email = lit ''a@b'', password = lit ''1234567'',
        passwordConfirm = lit ''1234567''\<rparr>, errors = [], isSubmitting = False\<rparr>
        \<lparr>errors := [(''password'', JStr msg_password_short)]\<rparr>) \<and>
   password (form
     \<lparr>form = \<lparr>username = lit ''abc'', email = lit ''a@b'', password = lit ''12345678'',
        passwordConfirm = lit ''12345679''\<rparr>, errors = [], isSubmitting = False\<rparr>) \<noteq>
   passwordConfirm (form
     \<lparr>form = \<lparr>username = lit ''abc'', email = lit ''a@b'', password = lit ''12345678'',
        passwordConfirm = lit ''12345679''\<rparr>, errors = [], isSubmitting = False\<rparr>) \<and>
   handleSubmit (\<lambda>r. Inr ())
     \<lparr>form = \<lparr>username = lit ''abc'', email = lit ''a@b'', password = lit ''12345678'',
        passwordConfirm = lit ''12345679''\<rparr>, errors = [], isSubmitting = False\<rparr> =
     ([], [], None,
      \<lparr>form = \<lparr>username = lit ''abc'', email = lit ''a@b'', password = lit ''12345678'',
        passwordConfirm = lit ''12345679''\<rparr>, errors = [], isSubmitting = False\<rparr>
        \<lparr>errors := [(''passwordConfirm'', JStr msg_password_mismatch)]\<rparr>) \<and>
   trim (username (form
     \<lparr>form = \<lparr>username = lit ''   '', email = lit ''a@b'', password = lit ''12345678'',
        passwordConfirm = lit ''12345678''\<rparr>, errors = [], isSubmitting = False\<rparr>)) = [] \<and>
   handleSubmit (\<lambda>r. Inr ())
     \<lparr>form = \<lparr>username = lit ''   '', email = lit ''a@b'', password = lit ''12345678'',
        passwordConfirm = lit ''12345678''\<rparr>, errors = [], isSubmitting = False\<rparr> =
     ([], [], None,
      \<lparr>form = \<lparr>username = lit ''   '', email = lit ''a@b'', password = lit ''12345678'',
        passwordConfirm = lit ''12345678''\<rparr>, errors = [], isSubmitting = False\<rparr>
        \<lparr>errors := [(''username'', JStr msg_username_required)]\<rparr>) \<and>
   trim (username (form
     \<lparr>form = \<lparr>username = lit ''abc'', email = lit ''a@b'', password = lit ''12345678'',
        passwordConfirm = lit ''12345678''\<rparr>, errors = [], isSubmitting = False\<rparr>)) \<noteq> [] \<and>
   validate (form
     \<lparr>form = \<lparr>username = lit ''abc'', email = lit ''a@b'', password = lit ''12345678'',
        passwordConfirm = lit ''12345678''\<rparr>, errors = [], isSubmitting = False\<rparr>) = [] \<and>
   errors (snd (snd (snd (handleSubmit (\<lambda>r. Inr ())
     \<lparr>form = \<lparr>username = lit ''abc'', email = lit ''a@b'', password = lit ''12345678'',
        passwordConfirm = lit ''12345678''\<rparr>, errors = [], isSubmitting = False\<rparr>)))) = []"
proof -
  let ?net = "\<lambda>r. Inr () :: js_error + unit"
  let ?A = "\<lparr>form = \<lparr>username = lit ''ab'', email = lit ''a@b'', password = lit ''12345678'',
              passwordConfirm = lit ''12345678''\<rparr>, errors = [], isSubmitting = False\<rparr>"
  let ?B = "\<lparr>form = \<lparr>username = lit ''abc'', email = lit ''ab'', password = lit ''12345678'',
              passwordConfirm = lit ''12345678''\<rparr>, errors = [], isSubmitting = False\<rparr>"
  let ?C = "\<lparr>form = \<lparr>username = lit ''abc'', email = lit ''a@b'', password = lit ''1234567'',
              passwordConfirm = lit ''1234567''\<rparr>, errors = [], isSubmitting = False\<rparr>"
  let ?D = "\<lparr>form = \<lparr>username = lit ''abc'', email = lit ''a@b'', password = lit ''12345678'',
              passwordConfirm = lit ''12345679''\<rparr>, errors = [], isSubmitting = False\<rparr>"
  let ?E = "\<lparr>form = \<lparr>username = lit ''   '', email = lit ''a@b'', password = lit ''12345678'',
              passwordConfirm = lit ''12345678''\<rparr>, errors = [], isSubmitting = False\<rparr>"
  let ?F = "\<lparr>form = \<lparr>username = lit ''abc'', email = lit ''a@b'', password = lit ''12345678'',
              passwordConfirm = lit ''12345678''\<rparr>, errors = [], isSubmitting = False\<rparr>"
  have a1: "length (username (form ?A)) < 3"
    by (simp add: trim_def is_space_def lit_def)
  have a2: "validate (form ?A) = [(''username'', JStr msg_username_short)]"
    by (simp add: validate_def Let_def set_prop_def trim_def is_space_def lit_def)
  from signup_validation [of ?A ?net] a1
  have "handleSubmit ?net ?A = ([], [], None, ?A\<lparr>errors := validate (form ?A)\<rparr>)"
    by blast
  then have a3: "handleSubmit ?net ?A = ([], [], None, ?A\<lparr>errors := [(''username'', JStr msg_username_short)]\<rparr>)"
    by (simp only: a2)
  have b1: "\<not> includes_js (email (form ?B)) (lit ''@'')"
    by (simp add: trim_def is_space_def lit_def)
  have b2: "validate (form ?B) = [(''email'', JStr msg_email_invalid)]"
    by (simp add: validate_def Let_def set_prop_def trim_def is_space_def lit_def)
  from signup_validation [of ?B ?net] b1
  have "handleSubmit ?net ?B = ([], [], None, ?B\<lparr>errors := validate (form ?B)\<rparr>)"
    by blast
  then have b3: "handleSubmit ?net ?B = ([], [], None, ?B\<lparr>errors := [(''email'', JStr msg_email_invalid)]\<rparr>)"
    by (simp only: b2)
  have c1: "length (password (form ?C)) < 8"
    by (simp add: trim_def is_space_def lit_def)
  have c2: "validate (form ?C) = [(''password'', JStr msg_password_short)]"
    by (simp add: validate_def Let_def set_prop_def trim_def is_space_def lit_def)
  from signup_validation [of ?C ?net] c1
  have "handleSubmit ?net ?C = ([], [], None, ?C\<lparr>errors := validate (form ?C)\<rparr>)"
    by blast
  then have c3: "handleSubmit ?net ?C = ([], [], None, ?C\<lparr>errors := [(''password'', JStr msg_password_short)]\<rparr>)"
    by (simp only: c2)
  have d1: "password (form ?D) \<noteq> passwordConfirm (form ?D)"
    by (simp add: trim_def is_space_def lit_def)
  have d2: "validate (form ?D) = [(''passwordConfirm'', JStr msg_password_mismatch)]"
    by (simp add: validate_def Let_def set_prop_def trim_def is_space_def lit_def)
  from signup_validation [of ?D ?net] d1
  have "handleSubmit ?net ?D = ([], [], None, ?D\<lparr>errors := validate (form ?D)\<rparr>)"
    by blast
  then have d3: "handleSubmit ?net ?D = ([], [], None, ?D\<lparr>errors := [(''passwordConfirm'', JStr msg_password_mismatch)]\<rparr>)"
    by (simp only: d2)
  have e1: "trim (username (form ?E)) = []"
    by (simp add: trim_def is_space_def lit_def)
  have e2: "validate (form ?E) = [(''username'', JStr msg_username_required)]"
    by (simp add: validate_def Let_def set_prop_def trim_def is_space_def lit_def)
  from signup_validation [of ?E ?net] e1
  have "handleSubmit ?net ?E = ([], [], None, ?E\<lparr>errors := validate (form ?E)\<rparr>)"
    by blast
  then have e3: "handleSubmit ?net ?E = ([], [], None, ?E\<lparr>errors := [(''username'', JStr msg_username_required)]\<rparr>)"
    by (simp only: e2)
  have f1: "trim (username (form ?F)) \<noteq> []"
    by (simp add: trim_def is_space_def lit_def)
  have f0: "3 \<le> length (username (form ?F)) \<and> includes_js (email (form ?F)) (lit ''@'') \<and>
      8 \<le> length (password (form ?F)) \<and> password (form ?F) = passwordConfirm (form ?F)"
    by (simp add: lit_def)
  from signup_validation [of ?F ?net] f1 f0
  have f23: "validate (form ?F) = [] \<and> errors (snd (snd (snd (handleSubmit ?net ?F)))) = errors ?F"
    by blast
  then have f2: "validate (form ?F) = []"
    and f3: "errors (snd (snd (snd (handleSubmit ?net ?F)))) = []"
    by simp_all
  from a1 a3 b1 b3 c1 c3 d1 d3 e1 e3 f1 f2 f3 show ?thesis
    by (intro conjI)
qed

end
